theory Spec2Isabelle
  imports Main
begin

section \<open>Python values used by \<open>backend.py\<close>\<close>

text \<open>
  A Python \<open>str\<close> is a sequence of code points; it is modelled as a \<open>string\<close>, one
  \<open>char\<close> per code point (code points below 256). A \<open>dict\<close> with string keys is an
  association list in insertion order: assigning to an existing key replaces the value in
  place, assigning to a new key appends the entry.
\<close>

type_synonym 'v dict = "(string \<times> 'v) list"

fun dict_set :: "string \<Rightarrow> 'v \<Rightarrow> 'v dict \<Rightarrow> 'v dict" where
  "dict_set k v [] = [(k, v)]"
| "dict_set k v ((k', v') # kvs) =
     (if k' = k then (k', v) # kvs else (k', v') # dict_set k v kvs)"

definition dict_get :: "'v dict \<Rightarrow> string \<Rightarrow> 'v option" where
  "dict_get d k = map_of d k"

text \<open>\<open>str.isspace\<close> on the code points below 256, and \<open>str.strip()\<close>.\<close>

definition py_isspace :: "char \<Rightarrow> bool" where
  "py_isspace c = ((of_char c :: nat) \<in> {9, 10, 11, 12, 13, 28, 29, 30, 31, 32, 133, 160})"

definition strip :: "string \<Rightarrow> string" where
  "strip t = rev (dropWhile py_isspace (rev (dropWhile py_isspace t)))"

text \<open>The slice \<open>xs[:n]\<close>: a negative \<open>n\<close> counts from the end.\<close>

definition py_prefix :: "int \<Rightarrow> 'a list \<Rightarrow> 'a list" where
  "py_prefix n xs = (if 0 \<le> n then take (nat n) xs else take (length xs - nat (- n)) xs)"

text \<open>\<open>sep.join(xs)\<close>.\<close>

fun join :: "string \<Rightarrow> string list \<Rightarrow> string" where
  "join sep [] = []"
| "join sep [x] = x"
| "join sep (x # y # ys) = x @ sep @ join sep (y # ys)"

section \<open>The state of a \<open>WebScraperAI\<close> instance\<close>

text \<open>
  The dictionary stored in \<open>self.content[url]\<close>; field \<open>doc_k\<close> is the entry under the
  key \<open>"k"\<close>.
\<close>

record document =
  doc_title :: string
  doc_text :: string
  doc_publish_date :: "string option"
  doc_authors :: "string list"
  doc_top_image :: string
  doc_source_url :: string

record scraper =
  serpapi_key :: string
  hf_api_key :: string
  search_results :: "string list"
  content :: "document dict"
  summaries :: "string dict"
  failed_urls :: "string list"

text \<open>\<open>__init__\<close>, given the two environment variables (\<open>""\<close> when unset).\<close>

definition init :: "string \<Rightarrow> string \<Rightarrow> scraper" where
  "init serp_env hf_env =
     \<lparr>serpapi_key = serp_env, hf_api_key = hf_env, search_results = [],
      content = [], summaries = [], failed_urls = []\<rparr>"

definition set_serpapi_key :: "string \<Rightarrow> scraper \<Rightarrow> scraper" where
  "set_serpapi_key key s = s\<lparr>serpapi_key := key\<rparr>"

definition set_hf_api_key :: "string \<Rightarrow> scraper \<Rightarrow> scraper" where
  "set_hf_api_key key s = s\<lparr>hf_api_key := key\<rparr>"

section \<open>\<open>scrape_website\<close> and \<open>batch_scrape\<close>\<close>

text \<open>
  What \<open>newspaper.Article\<close> yields after \<open>download()\<close> and \<open>parse()\<close>: the parsed fields,
  or an exception. \<open>art_publish_date\<close> holds \<open>str(article.publish_date)\<close> when the date is
  set. The network is a parameter: \<open>fetch w url\<close> is the outcome of one download in the
  world \<open>w\<close>, together with the world after it, so the same URL may give different outcomes
  on different calls.
\<close>

record article =
  art_title :: string
  art_text :: string
  art_publish_date :: "string option"
  art_authors :: "string list"
  art_top_image :: string

datatype fetch_outcome = Raised | Parsed article

type_synonym 'w fetcher = "'w \<Rightarrow> string \<Rightarrow> fetch_outcome \<times> 'w"

definition make_document :: "string \<Rightarrow> article \<Rightarrow> document" where
  "make_document url a =
     \<lparr>doc_title = art_title a, doc_text = art_text a,
      doc_publish_date = art_publish_date a, doc_authors = art_authors a,
      doc_top_image = art_top_image a, doc_source_url = url\<rparr>"

definition scrape_website ::
  "'w fetcher \<Rightarrow> string \<Rightarrow> scraper \<Rightarrow> 'w \<Rightarrow> document option \<times> scraper \<times> 'w" where
  "scrape_website fetch url s w =
     (case fetch w url of
        (Raised, w') \<Rightarrow> (None, s\<lparr>failed_urls := failed_urls s @ [url]\<rparr>, w')
      | (Parsed a, w') \<Rightarrow>
          if art_text a = [] \<or> length (strip (art_text a)) < 50
          then (None, s\<lparr>failed_urls := failed_urls s @ [url]\<rparr>, w')
          else (Some (make_document url a),
                s\<lparr>content := dict_set url (make_document url a) (content s)\<rparr>, w'))"

text \<open>The \<open>for\<close> loop of \<open>batch_scrape\<close>, with the list \<open>results\<close> built so far.\<close>

fun scrape_loop ::
  "'w fetcher \<Rightarrow> string list \<Rightarrow> (string \<times> document) list \<Rightarrow> scraper \<Rightarrow> 'w
     \<Rightarrow> (string \<times> document) list \<times> scraper \<times> 'w" where
  "scrape_loop fetch [] results s w = (results, s, w)"
| "scrape_loop fetch (url # urls) results s w =
     (case scrape_website fetch url s w of
        (None, s', w') \<Rightarrow> scrape_loop fetch urls results s' w'
      | (Some d, s', w') \<Rightarrow> scrape_loop fetch urls (results @ [(url, d)]) s' w')"

definition batch_scrape ::
  "'w fetcher \<Rightarrow> string list \<Rightarrow> scraper \<Rightarrow> 'w
     \<Rightarrow> (string \<times> document) list \<times> scraper \<times> 'w" where
  "batch_scrape fetch urls s w = scrape_loop fetch urls [] (s\<lparr>failed_urls := []\<rparr>) w"

section \<open>\<open>search_web\<close>\<close>

text \<open>
  The exceptions that leave a method. \<open>search_web\<close> raises \<open>ValueError\<close> when no SerpAPI key
  is set; \<open>open\<close> raises \<open>OSError\<close>.
\<close>

datatype error = ValueError | OSError

record serp_params =
  param_q :: string
  param_api_key :: string
  param_num :: int

text \<open>
  The outcome of \<open>GoogleSearch(params).get_dict()\<close>: an exception, or a dictionary whose
  \<open>"organic_results"\<close> entry, when present, lists the results, each with its \<open>"link"\<close>
  when it has one.
\<close>

datatype serp_outcome = SearchRaised | SearchDict "string option list option"

type_synonym 'w searcher = "'w \<Rightarrow> serp_params \<Rightarrow> serp_outcome \<times> 'w"

text \<open>
  \<open>[result["link"] for result in rs]\<close>: \<open>None\<close> when a result has no link, where the
  subscript raises \<open>KeyError\<close>.
\<close>

fun links :: "string option list \<Rightarrow> string list option" where
  "links [] = Some []"
| "links (None # rs) = None"
| "links (Some l # rs) = (case links rs of None \<Rightarrow> None | Some ls \<Rightarrow> Some (l # ls))"

definition search_web ::
  "'w searcher \<Rightarrow> string \<Rightarrow> int \<Rightarrow> scraper \<Rightarrow> 'w
     \<Rightarrow> (error + string list) \<times> scraper \<times> 'w" where
  "search_web search query num_results s w =
     (if serpapi_key s = [] then (Inl ValueError, s, w)
      else
        (case search w \<lparr>param_q = query, param_api_key = serpapi_key s,
                         param_num = num_results\<rparr> of
           (SearchRaised, w') \<Rightarrow> (Inr [], s, w')
         | (SearchDict None, w') \<Rightarrow> (Inr [], s, w')
         | (SearchDict (Some organic), w') \<Rightarrow>
             (case links (py_prefix num_results organic) of
                None \<Rightarrow> (Inr [], s, w')
              | Some urls \<Rightarrow> (Inr urls, s\<lparr>search_results := urls\<rparr>, w'))))"

text \<open>
  \<open>suggest_alternative_resources\<close>; \<open>netloc url\<close> is \<open>urlparse(url).netloc\<close>, \<open>None\<close> when
  \<open>urlparse\<close> raises \<open>ValueError\<close>, which happens outside the \<open>try\<close>.
\<close>

definition suggest_alternative_resources ::
  "(string \<Rightarrow> string option) \<Rightarrow> 'w searcher \<Rightarrow> string \<Rightarrow> string option \<Rightarrow> scraper \<Rightarrow> 'w
     \<Rightarrow> (error + string list) \<times> scraper \<times> 'w" where
  "suggest_alternative_resources netloc search failed_url query s w =
     (let run = (\<lambda>query'.
            case search_web search query' 3 s w of
              (Inl e, s', w') \<Rightarrow> (Inr [], s', w')
            | (Inr urls, s', w') \<Rightarrow> (Inr urls, s', w'));
          from_domain =
            (case netloc failed_url of
               None \<Rightarrow> (Inl ValueError, s, w)
             | Some domain \<Rightarrow> run (''site:'' @ domain @ '' information''))
      in case query of
           None \<Rightarrow> from_domain
         | Some given \<Rightarrow> if given = [] then from_domain else run given)"

section \<open>\<open>summarize_text\<close> and \<open>analyze_and_summarize\<close>\<close>

record hf_payload =
  payload_inputs :: string
  payload_max_length :: int
  payload_min_length :: int

text \<open>
  The outcome of \<open>requests.post\<close>: an exception, or a response with its status code and
  the value of \<open>response.json()[0]["summary_text"]\<close>, \<open>None\<close> when evaluating it raises.
  The first argument of a \<open>poster\<close> after the world is the key sent in the header.
\<close>

datatype hf_outcome = PostRaised | Response int "string option"

type_synonym 'w poster = "'w \<Rightarrow> string \<Rightarrow> hf_payload \<Rightarrow> hf_outcome \<times> 'w"

text \<open>\<open>_simple_summarize\<close>; \<open>sent_tokenize\<close> is NLTK's, a parameter.\<close>

definition simple_summarize :: "(string \<Rightarrow> string list) \<Rightarrow> string \<Rightarrow> int \<Rightarrow> string" where
  "simple_summarize sent_tokenize body num_sentences =
     join '' '' (py_prefix num_sentences (sent_tokenize body))"

definition summarize_text ::
  "(string \<Rightarrow> string list) \<Rightarrow> 'w poster \<Rightarrow> scraper \<Rightarrow> string \<Rightarrow> int \<Rightarrow> 'w \<Rightarrow> string \<times> 'w" where
  "summarize_text sent_tokenize post s body max_length w =
     (if hf_api_key s = [] then (simple_summarize sent_tokenize body 5, w)
      else
        (let body' = (if length body > 5000 then take 5000 body else body)
         in case post w (hf_api_key s)
                  \<lparr>payload_inputs = body', payload_max_length = max_length,
                   payload_min_length = 100\<rparr> of
              (PostRaised, w') \<Rightarrow> (simple_summarize sent_tokenize body' 5, w')
            | (Response status_code summary_text, w') \<Rightarrow>
                if status_code = 200
                then (case summary_text of
                        Some summary \<Rightarrow> (summary, w')
                      | None \<Rightarrow> (simple_summarize sent_tokenize body' 5, w'))
                else (simple_summarize sent_tokenize body' 5, w')))"

text \<open>The \<open>for\<close> loop of \<open>analyze_and_summarize\<close> over \<open>self.content.items()\<close>.\<close>

fun summarize_loop ::
  "(string \<Rightarrow> string list) \<Rightarrow> 'w poster \<Rightarrow> (string \<times> document) list \<Rightarrow> string \<Rightarrow> scraper
     \<Rightarrow> 'w \<Rightarrow> string \<times> scraper \<times> 'w" where
  "summarize_loop sent_tokenize post [] all_text s w = (all_text, s, w)"
| "summarize_loop sent_tokenize post ((url, d) # items) all_text s w =
     (case summarize_text sent_tokenize post s (doc_text d) 500 w of
        (summary, w') \<Rightarrow>
          summarize_loop sent_tokenize post items
            (all_text @ doc_title d @ [CHR 0x0A] @ doc_text d @ [CHR 0x0A, CHR 0x0A])
            (s\<lparr>summaries := dict_set url summary (summaries s)\<rparr>) w')"

definition analyze_and_summarize ::
  "(string \<Rightarrow> string list) \<Rightarrow> 'w poster \<Rightarrow> scraper \<Rightarrow> 'w \<Rightarrow> string dict \<times> scraper \<times> 'w" where
  "analyze_and_summarize sent_tokenize post s w =
     (case summarize_loop sent_tokenize post (content s) [] s w of
        (all_text, s', w') \<Rightarrow>
          if all_text \<noteq> []
          then (case summarize_text sent_tokenize post s' all_text 1000 w' of
                  (overall_summary, w'') \<Rightarrow>
                    (dict_set ''overall'' overall_summary (summaries s'),
                     s'\<lparr>summaries := dict_set ''overall'' overall_summary (summaries s')\<rparr>,
                     w''))
          else (summaries s', s', w'))"

section \<open>\<open>save_results\<close>\<close>

text \<open>
  The Python values that \<open>save_results\<close> hands to \<open>json.dump\<close>: \<open>None\<close>, strings, lists
  and dictionaries with string keys.
\<close>

datatype pyval = PyNone | PyStr string | PyList "pyval list" | PyDict "(string \<times> pyval) list"

definition py_strs :: "string list \<Rightarrow> pyval" where
  "py_strs xs = PyList (map PyStr xs)"

definition py_document :: "document \<Rightarrow> pyval" where
  "py_document d =
     PyDict [(''title'', PyStr (doc_title d)),
             (''text'', PyStr (doc_text d)),
             (''publish_date'', (case doc_publish_date d of None \<Rightarrow> PyNone | Some t \<Rightarrow> PyStr t)),
             (''authors'', py_strs (doc_authors d)),
             (''top_image'', PyStr (doc_top_image d)),
             (''source_url'', PyStr (doc_source_url d))]"

definition py_content :: "document dict \<Rightarrow> pyval" where
  "py_content c = PyDict (map (\<lambda>(url, d). (url, py_document d)) c)"

definition py_summaries :: "string dict \<Rightarrow> pyval" where
  "py_summaries m = PyDict (map (\<lambda>(url, summary). (url, PyStr summary)) m)"

text \<open>The dictionary \<open>results\<close> built by \<open>save_results\<close>.\<close>

definition results_dict :: "scraper \<Rightarrow> pyval" where
  "results_dict s =
     PyDict [(''search_results'', py_strs (search_results s)),
             (''content'', py_content (content s)),
             (''summaries'', py_summaries (summaries s)),
             (''failed_urls'', py_strs (failed_urls s))]"

text \<open>
  The file system maps a file name to the file's contents, of a type \<open>'f\<close>.
  \<open>json_dump v\<close> is what \<open>json.dump(v, f, indent=2, ensure_ascii=False)\<close> writes, and
  \<open>can_open filename\<close> tells whether \<open>open(filename, "w")\<close> succeeds; both are parameters.
\<close>

definition save_results ::
  "(pyval \<Rightarrow> 'f) \<Rightarrow> (string \<Rightarrow> bool) \<Rightarrow> string \<Rightarrow> scraper \<Rightarrow> (string \<Rightarrow> 'f option)
     \<Rightarrow> (error + string) \<times> (string \<Rightarrow> 'f option)" where
  "save_results json_dump can_open filename s fs =
     (if can_open filename
      then (Inr filename, fs(filename := Some (json_dump (results_dict s))))
      else (Inl OSError, fs))"

text \<open>
  Reading a saved file back, \<open>json.load(open(filename))\<close>: \<open>json_load\<close> is a parameter,
  \<open>None\<close> when the file does not exist or does not parse. \<open>py_field\<close> is the subscript
  \<open>v[k]\<close> of the loaded value.
\<close>

definition reload :: "('f \<Rightarrow> pyval option) \<Rightarrow> string \<Rightarrow> (string \<Rightarrow> 'f option) \<Rightarrow> pyval option" where
  "reload json_load filename fs =
     (case fs filename of None \<Rightarrow> None | Some written \<Rightarrow> json_load written)"

fun py_field :: "pyval \<Rightarrow> string \<Rightarrow> pyval option" where
  "py_field (PyDict kvs) k = map_of kvs k"
| "py_field v k = None"

text \<open>
  The values of \<open>pyval\<close> that are Python values: a dictionary has each key once.
\<close>

fun dict_keys_distinct :: "pyval \<Rightarrow> bool" where
  "dict_keys_distinct PyNone = True"
| "dict_keys_distinct (PyStr t) = True"
| "dict_keys_distinct (PyList vs) = list_all dict_keys_distinct vs"
| "dict_keys_distinct (PyDict kvs) =
     (distinct (map fst kvs) \<and> list_all dict_keys_distinct (map snd kvs))"

section \<open>Notions used to state the properties\<close>

text \<open>
  An extraction fails when the download or the parse raises, or when the extracted text
  has fewer than 50 characters after trimming.
\<close>

fun extraction_failed :: "fetch_outcome \<Rightarrow> bool" where
  "extraction_failed Raised = True"
| "extraction_failed (Parsed a) = (length (strip (art_text a)) < 50)"

text \<open>The pair that a successful extraction of \<open>url\<close> contributes to a batch.\<close>

fun extracted :: "string \<Rightarrow> fetch_outcome \<Rightarrow> (string \<times> document) option" where
  "extracted url Raised = None"
| "extracted url (Parsed a) =
     (if length (strip (art_text a)) < 50 then None else Some (url, make_document url a))"

text \<open>
  The outcomes that the network gives to a sequence of downloads, one after the other,
  each paired with its URL.
\<close>

fun outcomes :: "'w fetcher \<Rightarrow> string list \<Rightarrow> 'w \<Rightarrow> (string \<times> fetch_outcome) list" where
  "outcomes fetch [] w = []"
| "outcomes fetch (url # urls) w =
     (case fetch w url of (out, w') \<Rightarrow> (url, out) # outcomes fetch urls w')"

text \<open>Every stored document has a text of at least 50 characters after trimming.\<close>

definition long_enough :: "string \<times> document \<Rightarrow> bool" where
  "long_enough entry = (50 \<le> length (strip (doc_text (snd entry))))"

definition content_ok :: "scraper \<Rightarrow> bool" where
  "content_ok s = list_all long_enough (content s)"

text \<open>The provider call failed: it raised, or it answered with a status other than 200.\<close>

fun provider_failed :: "hf_outcome \<Rightarrow> bool" where
  "provider_failed PostRaised = True"
| "provider_failed (Response status_code summary_text) = (status_code \<noteq> 200)"

text \<open>
  The search met a transport or parsing error: the request raised, or one of the results
  that the slice keeps has no link.
\<close>

fun search_errored :: "int \<Rightarrow> serp_outcome \<Rightarrow> bool" where
  "search_errored num_results SearchRaised = True"
| "search_errored num_results (SearchDict None) = False"
| "search_errored num_results (SearchDict (Some organic)) =
     (links (py_prefix num_results organic) = None)"

text \<open>
  The URLs that a search found: the links of the results that the slice keeps, when the
  answer lists organic results and each of those has a link.
\<close>

fun search_found :: "int \<Rightarrow> serp_outcome \<Rightarrow> string list option" where
  "search_found num_results SearchRaised = None"
| "search_found num_results (SearchDict None) = None"
| "search_found num_results (SearchDict (Some organic)) = links (py_prefix num_results organic)"

text \<open>
  The states that an instance can be in: the state after \<open>__init__\<close>, and every state
  that a method call leaves, whatever the network answers. \<open>summarize_text\<close>,
  \<open>save_results\<close> and \<open>clear_data_folder\<close> do not assign to a field of the instance, and
  neither front-end does, so they add no state.
\<close>

inductive reachable ::
  "(string \<Rightarrow> string list) \<Rightarrow> 'w poster \<Rightarrow> 'w fetcher \<Rightarrow> 'w searcher \<Rightarrow> (string \<Rightarrow> string option)
     \<Rightarrow> scraper \<Rightarrow> bool"
  for sent_tokenize post fetch search netloc where
  r_init: "reachable sent_tokenize post fetch search netloc (init serp_env hf_env)"
| r_set_serpapi_key:
    "reachable sent_tokenize post fetch search netloc s
     \<Longrightarrow> reachable sent_tokenize post fetch search netloc (set_serpapi_key key s)"
| r_set_hf_api_key:
    "reachable sent_tokenize post fetch search netloc s
     \<Longrightarrow> reachable sent_tokenize post fetch search netloc (set_hf_api_key key s)"
| r_search_web:
    "reachable sent_tokenize post fetch search netloc s
     \<Longrightarrow> search_web search query num_results s w = (r, s', w')
     \<Longrightarrow> reachable sent_tokenize post fetch search netloc s'"
| r_suggest:
    "reachable sent_tokenize post fetch search netloc s
     \<Longrightarrow> suggest_alternative_resources netloc search failed_url given s w = (r, s', w')
     \<Longrightarrow> reachable sent_tokenize post fetch search netloc s'"
| r_scrape_website:
    "reachable sent_tokenize post fetch search netloc s
     \<Longrightarrow> scrape_website fetch url s w = (d, s', w')
     \<Longrightarrow> reachable sent_tokenize post fetch search netloc s'"
| r_batch_scrape:
    "reachable sent_tokenize post fetch search netloc s
     \<Longrightarrow> batch_scrape fetch urls s w = (rs, s', w')
     \<Longrightarrow> reachable sent_tokenize post fetch search netloc s'"
| r_analyze:
    "reachable sent_tokenize post fetch search netloc s
     \<Longrightarrow> analyze_and_summarize sent_tokenize post s w = (m, s', w')
     \<Longrightarrow> reachable sent_tokenize post fetch search netloc s'"

text \<open>
  What holds of every state an instance can be in: the stored texts are long enough, no
  dictionary has a key twice, and there are summaries only when there is content.
\<close>

definition state_inv :: "scraper \<Rightarrow> bool" where
  "state_inv s =
     (content_ok s \<and> distinct (map fst (content s)) \<and> distinct (map fst (summaries s))
      \<and> (content s = [] \<longrightarrow> summaries s = []))"

subsection \<open>Sample environments\<close>

text \<open>A tokenizer that finds one sentence, the whole text.\<close>

definition one_sentence :: "string \<Rightarrow> string list" where
  "one_sentence t = [t]"

text \<open>A tokenizer that splits after each full stop and drops the blanks between sentences.\<close>

fun split_sentences :: "string \<Rightarrow> string \<Rightarrow> string list" where
  "split_sentences cur [] = (if cur = [] then [] else [cur])"
| "split_sentences cur (c # cs) =
     (if c = CHR ''.'' then (cur @ [c]) # split_sentences [] cs
      else if cur = [] \<and> py_isspace c then split_sentences [] cs
      else split_sentences (cur @ [c]) cs)"

text \<open>A summarization provider that cannot be reached, and one that answers 503.\<close>

definition post_unreachable :: "'w poster" where
  "post_unreachable w key payload = (PostRaised, w)"

definition post_unavailable :: "'w poster" where
  "post_unavailable w key payload = (Response 503 None, w)"

text \<open>
  A network that records each request it receives: the world is the list of the URLs
  downloaded and the list of the searches made. One page has a text of 64 characters, one
  has a single word, and every other download raises.
\<close>

definition long_article :: article where
  "long_article =
     \<lparr>art_title = ''Fox'',
      art_text = ''The quick brown fox jumps over the lazy dog near the river bank.'',
      art_publish_date = None, art_authors = [], art_top_image = []\<rparr>"

definition short_article :: article where
  "short_article =
     \<lparr>art_title = ''Short'', art_text = ''  short  '', art_publish_date = None,
      art_authors = [], art_top_image = []\<rparr>"

definition sample_fetch :: "(string list \<times> serp_params list) fetcher" where
  "sample_fetch w url =
     (if url = ''http://a/long'' then Parsed long_article
      else if url = ''http://a/short'' then Parsed short_article
      else Raised,
      (fst w @ [url], snd w))"

definition search_down :: "(string list \<times> serp_params list) searcher" where
  "search_down w params = (SearchRaised, (fst w, snd w @ [params]))"

text \<open>A search provider that answers the first request and cannot be reached afterwards.\<close>

definition search_once :: "(string list \<times> serp_params list) searcher" where
  "search_once w params =
     (if snd w = [] then SearchDict (Some [Some ''http://a/long'', Some ''http://a/short''])
      else SearchRaised,
      (fst w, snd w @ [params]))"

definition no_netloc :: "string \<Rightarrow> string option" where
  "no_netloc url = None"

text \<open>A serializer that keeps the value as it is.\<close>

definition dump_value :: "pyval \<Rightarrow> pyval" where
  "dump_value v = v"

definition load_value :: "pyval \<Rightarrow> pyval option" where
  "load_value written = Some written"

definition any_file :: "string \<Rightarrow> bool" where
  "any_file filename = True"

section \<open>Properties of the loops and of the reachable states\<close>

subsection \<open>One extraction, and the loop of \<open>batch_scrape\<close>\<close>

lemma scrape_website_outcome:
  "scrape_website fetch url s w =
     (case extracted url (fst (fetch w url)) of
        None \<Rightarrow> (None, s\<lparr>failed_urls := failed_urls s @ [url]\<rparr>, snd (fetch w url))
      | Some (u, d) \<Rightarrow> (Some d, s\<lparr>content := dict_set url d (content s)\<rparr>, snd (fetch w url)))"
proof (cases "fetch w url")
  case (Pair out w')
  then show ?thesis
  proof (cases out)
    case Raised
    with Pair show ?thesis by (simp add: scrape_website_def)
  next
    case (Parsed a)
    have "art_text a = [] \<Longrightarrow> length (strip (art_text a)) < 50"
      by (simp add: strip_def)
    with Pair Parsed show ?thesis by (auto simp add: scrape_website_def)
  qed
qed

lemma extracted_None: "(extracted url out = None) = extraction_failed out"
  by (cases out) simp_all

lemma extracted_fst: "extracted url out = Some (u, d) \<Longrightarrow> u = url"
  by (cases out) (auto split: if_splits)

lemma scrape_loop_results:
  "fst (scrape_loop fetch urls results s w) =
     results @ List.map_filter (\<lambda>(u, out). extracted u out) (outcomes fetch urls w)"
proof (induction urls arbitrary: results s w)
  case Nil
  show ?case by (simp add:)
next
  case (Cons url urls)
  obtain out w' where f: "fetch w url = (out, w')" by (cases "fetch w url")
  show ?case
  proof (cases "extracted url out")
    case None
    with f show ?thesis
      by (simp add: scrape_website_outcome Cons.IH)
  next
    case (Some p)
    then obtain d where "p = (url, d)" by (cases p) (auto dest: extracted_fst)
    with f Some show ?thesis
      by (simp add: scrape_website_outcome Cons.IH)
  qed
qed

lemma scrape_loop_failed:
  "failed_urls (fst (snd (scrape_loop fetch urls results s w))) =
     failed_urls s @ map fst (filter (\<lambda>(u, out). extraction_failed out) (outcomes fetch urls w))"
proof (induction urls arbitrary: results s w)
  case Nil
  show ?case by simp
next
  case (Cons url urls)
  obtain out w' where f: "fetch w url = (out, w')" by (cases "fetch w url")
  show ?case
  proof (cases "extracted url out")
    case None
    with f show ?thesis
      using extracted_None [of url out]
      by (simp add: scrape_website_outcome Cons.IH)
  next
    case (Some p)
    then obtain d where "p = (url, d)" by (cases p) (auto dest: extracted_fst)
    with f Some show ?thesis
      using extracted_None [of url out]
      by (simp add: scrape_website_outcome Cons.IH)
  qed
qed

lemma outcomes_urls: "map fst (outcomes fetch urls w) = urls"
  by (induction urls arbitrary: w) (simp_all split: prod.splits)

subsection \<open>The invariant of the reachable states\<close>

lemma dict_set_keys:
  "map fst (dict_set k v d) = (if k \<in> fst ` set d then map fst d else map fst d @ [k])"
  by (induction d) force+

lemma dict_set_distinct: "distinct (map fst d) \<Longrightarrow> distinct (map fst (dict_set k v d))"
  by (simp add: dict_set_keys)

lemma dict_set_nonempty: "dict_set k v d \<noteq> []"
  by (cases d) (auto split: if_splits)

lemma dict_set_all: "list_all P d \<Longrightarrow> P (k, v) \<Longrightarrow> list_all P (dict_set k v d)"
  by (induction d) auto

lemma extracted_long: "extracted url out = Some (u, d) \<Longrightarrow> long_enough (u, d)"
  by (cases out) (auto simp add: long_enough_def make_document_def split: if_splits)

lemma inv_scrape_website:
  assumes "state_inv s" and "scrape_website fetch url s w = (r, s', w')"
  shows "state_inv s'"
proof (cases "extracted url (fst (fetch w url))")
  case None
  with assms show ?thesis
    by (auto simp add: scrape_website_outcome state_inv_def content_ok_def)
next
  case (Some p)
  obtain u d where p: "p = (u, d)" by (cases p)
  with Some have "long_enough (u, d)" and "u = url"
    by (auto dest: extracted_long extracted_fst)
  with assms Some p show ?thesis
    by (auto simp add: scrape_website_outcome state_inv_def content_ok_def
          dict_set_distinct dict_set_nonempty dict_set_all long_enough_def)
qed

lemma inv_scrape_loop:
  "state_inv s \<Longrightarrow> scrape_loop fetch urls results s w = (rs, s', w') \<Longrightarrow> state_inv s'"
proof (induction urls arbitrary: results s w)
  case Nil
  then show ?case by simp
next
  case (Cons url urls)
  obtain r s1 w1 where step: "scrape_website fetch url s w = (r, s1, w1)"
    by (cases "scrape_website fetch url s w")
  with Cons.prems(1) have "state_inv s1" by (rule inv_scrape_website)
  with Cons.IH Cons.prems(2) step show ?case
    by (cases r) auto
qed

lemma inv_failed_urls: "state_inv (s\<lparr>failed_urls := fs\<rparr>) = state_inv s"
  by (simp add: state_inv_def content_ok_def)

lemma inv_batch_scrape:
  "state_inv s \<Longrightarrow> batch_scrape fetch urls s w = (rs, s', w') \<Longrightarrow> state_inv s'"
  unfolding batch_scrape_def
  by (rule inv_scrape_loop [of "s\<lparr>failed_urls := []\<rparr>"]) (simp_all add: inv_failed_urls)

lemma search_web_state:
  "search_web search query n s w = (r, s', w') \<Longrightarrow> \<exists>urls. s' = s \<or> s' = s\<lparr>search_results := urls\<rparr>"
  by (auto simp add: search_web_def split: if_splits prod.splits serp_outcome.splits option.splits)

lemma inv_search_results: "state_inv (s\<lparr>search_results := urls\<rparr>) = state_inv s"
  by (simp add: state_inv_def content_ok_def)

lemma inv_search_web:
  "state_inv s \<Longrightarrow> search_web search query n s w = (r, s', w') \<Longrightarrow> state_inv s'"
  using search_web_state [of search query n s w r s' w'] by (auto simp add: inv_search_results)

lemma inv_suggest:
  assumes "state_inv s"
    and "suggest_alternative_resources netloc search failed_url given s w = (r, s', w')"
  shows "state_inv s'"
proof -
  have run: "\<And>query' r0 s0 w0. search_web search query' 3 s w = (r0, s0, w0) \<Longrightarrow> state_inv s0"
    using assms(1) by (rule inv_search_web)
  from assms(2) show ?thesis
    using assms(1) run
    by (auto simp add: suggest_alternative_resources_def Let_def
          split: option.splits if_splits prod.splits sum.splits)
qed

lemma summarize_loop_state:
  "summarize_loop tok post items acc s w = (t, s', w')
   \<Longrightarrow> content s' = content s \<and> (distinct (map fst (summaries s)) \<longrightarrow> distinct (map fst (summaries s')))
       \<and> (items = [] \<longrightarrow> s' = s \<and> t = acc)"
proof (induction items arbitrary: acc s w)
  case Nil
  then show ?case by simp
next
  case (Cons item items)
  obtain url d where item: "item = (url, d)" by (cases item)
  obtain summary w1 where st: "summarize_text tok post s (doc_text d) 500 w = (summary, w1)"
    by (cases "summarize_text tok post s (doc_text d) 500 w")
  from Cons.prems item st Cons.IH [of _ "s\<lparr>summaries := dict_set url summary (summaries s)\<rparr>" w1]
  show ?case by (auto simp add: dict_set_distinct)
qed

lemma inv_analyze:
  assumes "state_inv s" and "analyze_and_summarize tok post s w = (m, s', w')"
  shows "state_inv s'"
proof -
  obtain t s1 w1 where loop: "summarize_loop tok post (content s) [] s w = (t, s1, w1)"
    by (cases "summarize_loop tok post (content s) [] s w")
  note st = summarize_loop_state [OF loop]
  show ?thesis
  proof (cases "content s = []")
    case True
    with st assms loop show ?thesis by (simp add: analyze_and_summarize_def)
  next
    case False
    with st assms(1) have "state_inv s1" by (simp add: state_inv_def content_ok_def)
    with False st assms(2) loop show ?thesis
      by (auto simp add: analyze_and_summarize_def state_inv_def content_ok_def dict_set_distinct
            split: if_splits prod.splits)
  qed
qed

lemma reachable_inv:
  "reachable tok post fetch search netloc s \<Longrightarrow> state_inv s"
proof (induction rule: reachable.induct)
  case (r_init serp_env hf_env)
  show ?case by (simp add: state_inv_def content_ok_def init_def)
next
  case (r_set_serpapi_key s key)
  then show ?case by (simp add: state_inv_def content_ok_def set_serpapi_key_def)
next
  case (r_set_hf_api_key s key)
  then show ?case by (simp add: state_inv_def content_ok_def set_hf_api_key_def)
next
  case (r_search_web s query num_results w r s' w')
  show ?case by (rule inv_search_web [OF r_search_web.IH r_search_web.hyps(2)])
next
  case (r_suggest s failed_url given w r s' w')
  show ?case by (rule inv_suggest [OF r_suggest.IH r_suggest.hyps(2)])
next
  case (r_scrape_website s url w d s' w')
  show ?case by (rule inv_scrape_website [OF r_scrape_website.IH r_scrape_website.hyps(2)])
next
  case (r_batch_scrape s urls w rs s' w')
  show ?case by (rule inv_batch_scrape [OF r_batch_scrape.IH r_batch_scrape.hyps(2)])
next
  case (r_analyze s w m s' w')
  show ?case by (rule inv_analyze [OF r_analyze.IH r_analyze.hyps(2)])
qed

lemma count_failed:
  "count_list (map fst (filter (\<lambda>(u, out). P out) xs)) url =
     length (filter (\<lambda>(u, out). u = url \<and> P out) xs)"
  by (induction xs) auto

subsection \<open>Searching and saving\<close>

lemma search_web_result:
  "serpapi_key s \<noteq> [] \<Longrightarrow>
     search_web search query n s w =
       (case search_found n (fst (search w \<lparr>param_q = query, param_api_key = serpapi_key s,
                                           param_num = n\<rparr>)) of
          None \<Rightarrow> (Inr [], s,
                    snd (search w \<lparr>param_q = query, param_api_key = serpapi_key s,
                                    param_num = n\<rparr>))
        | Some urls \<Rightarrow> (Inr urls, s\<lparr>search_results := urls\<rparr>,
                       snd (search w \<lparr>param_q = query, param_api_key = serpapi_key s,
                                      param_num = n\<rparr>)))"
  by (simp add: search_web_def split: prod.splits serp_outcome.splits option.splits)

lemma search_errored_found: "search_errored n out \<Longrightarrow> search_found n out = None"
  by (cases "(n, out)" rule: search_found.cases) simp_all

lemma py_strs_ok: "dict_keys_distinct (py_strs xs)"
  by (simp add: py_strs_def list_all_iff)

lemma py_document_ok: "dict_keys_distinct (py_document d)"
  by (simp add: py_document_def py_strs_ok split: option.splits)

lemma py_content_keys: "fst \<circ> (\<lambda>(url, d). (url, f d)) = fst"
  by (simp add: fun_eq_iff)

lemma py_content_ok: "distinct (map fst c) \<Longrightarrow> dict_keys_distinct (py_content c)"
  by (simp add: py_content_def py_content_keys list_all_iff py_document_ok split_beta)

lemma py_summaries_ok: "distinct (map fst m) \<Longrightarrow> dict_keys_distinct (py_summaries m)"
  by (simp add: py_summaries_def py_content_keys list_all_iff split_beta)

lemma results_dict_ok: "state_inv s \<Longrightarrow> dict_keys_distinct (results_dict s)"
  by (simp add: results_dict_def state_inv_def py_strs_ok py_content_ok py_summaries_ok)

text \<open>
  The Python value of a content map, of a summary table or of a list of URLs determines
  it: two states with equal values under a key of the saved dictionary agree on the field.
\<close>

lemma py_strs_inj: "py_strs xs = py_strs ys \<Longrightarrow> xs = ys"
  by (simp add: py_strs_def inj_on_def list.inj_map_strong)

lemma py_document_inj: "py_document d = py_document d' \<Longrightarrow> d = d'"
  by (cases d; cases d')
     (auto simp add: py_document_def dest: py_strs_inj split: option.splits)

lemma py_content_inj: "py_content c = py_content c' \<Longrightarrow> c = c'"
proof -
  assume "py_content c = py_content c'"
  then have "map (\<lambda>(url, d). (url, py_document d)) c = map (\<lambda>(url, d). (url, py_document d)) c'"
    by (simp add: py_content_def)
  then show "c = c'"
  proof (induction c arbitrary: c')
    case Nil
    then show ?case by simp
  next
    case (Cons x c)
    then show ?case by (cases c'; cases x) (auto dest: py_document_inj)
  qed
qed

lemma py_summaries_inj: "py_summaries m = py_summaries m' \<Longrightarrow> m = m'"
proof -
  assume "py_summaries m = py_summaries m'"
  then have "map (\<lambda>(url, t). (url, PyStr t)) m = map (\<lambda>(url, t). (url, PyStr t)) m'"
    by (simp add: py_summaries_def)
  then show "m = m'"
  proof (induction m arbitrary: m')
    case Nil
    then show ?case by simp
  next
    case (Cons x m)
    then show ?case by (cases m'; cases x) auto
  qed
qed

lemma reachable_sample:
  "reachable one_sentence post_unreachable sample_fetch search_down no_netloc
     ((init [] [])\<lparr>content := [(''http://a/long'', make_document ''http://a/long'' long_article)]\<rparr>)"
proof -
  have r0: "reachable one_sentence post_unreachable sample_fetch search_down no_netloc (init [] [])"
    by (rule r_init)
  have "scrape_website sample_fetch ''http://a/long'' (init [] []) ([], [])
          = (Some (make_document ''http://a/long'' long_article),
             (init [] [])\<lparr>content := [(''http://a/long'', make_document ''http://a/long'' long_article)]\<rparr>,
             ([''http://a/long''], []))"
    by (simp add: scrape_website_def sample_fetch_def long_article_def strip_def py_isspace_def
          init_def)
  with r0 show ?thesis by (rule r_scrape_website)
qed

section \<open>The claims\<close>

text \<open>
  C1. In every reachable state, a document stored in the content map has a text of at
  least 50 characters after trimming. When the extraction of a URL fails (the download or
  the parse raises, or the trimmed text has fewer than 50 characters), \<open>scrape_website\<close>
  returns \<open>None\<close>, leaves the content map as it was and appends the URL to the failed
  list; otherwise the extracted text has at least 50 characters after trimming and the
  document is stored under the URL.
\<close>

theorem extraction_min_length:
  assumes "reachable tok post fetch search netloc s"
  shows "(dict_get (content s) url' = Some d \<longrightarrow> 50 \<le> length (strip (doc_text d)))
       \<and> (if extraction_failed (fst (fetch w url))
          then scrape_website fetch url s w =
                 (None, s\<lparr>failed_urls := failed_urls s @ [url]\<rparr>, snd (fetch w url))
          else \<exists>a. fst (fetch w url) = Parsed a \<and> 50 \<le> length (strip (art_text a))
                 \<and> scrape_website fetch url s w =
                     (Some (make_document url a),
                      s\<lparr>content := dict_set url (make_document url a) (content s)\<rparr>,
                      snd (fetch w url)))"
proof -
  from assms have "state_inv s" by (rule reachable_inv)
  then have all: "list_all long_enough (content s)"
    by (simp add: state_inv_def content_ok_def)
  have stored: "dict_get (content s) url' = Some d \<longrightarrow> 50 \<le> length (strip (doc_text d))"
  proof
    assume "dict_get (content s) url' = Some d"
    then have "(url', d) \<in> set (content s)"
      by (simp add: dict_get_def map_of_SomeD)
    with all have "long_enough (url', d)" by (simp add: list_all_iff)
    then show "50 \<le> length (strip (doc_text d))" by (simp add: long_enough_def)
  qed
  have step: "if extraction_failed (fst (fetch w url))
          then scrape_website fetch url s w =
                 (None, s\<lparr>failed_urls := failed_urls s @ [url]\<rparr>, snd (fetch w url))
          else \<exists>a. fst (fetch w url) = Parsed a \<and> 50 \<le> length (strip (art_text a))
                 \<and> scrape_website fetch url s w =
                     (Some (make_document url a),
                      s\<lparr>content := dict_set url (make_document url a) (content s)\<rparr>,
                      snd (fetch w url))"
  proof (cases "fst (fetch w url)")
    case Raised
    then show ?thesis by (simp add: scrape_website_outcome)
  next
    case (Parsed a)
    then show ?thesis by (simp add: scrape_website_outcome)
  qed
  from stored step show ?thesis by (rule conjI)
qed

theorem extraction_min_length_witness:
  "reachable one_sentence post_unreachable sample_fetch search_down no_netloc
     ((init [] [])\<lparr>content := [(''http://a/long'', make_document ''http://a/long'' long_article)]\<rparr>)
   \<and> dict_get [(''http://a/long'', make_document ''http://a/long'' long_article)] ''http://a/long''
       = Some (make_document ''http://a/long'' long_article)
   \<and> 50 \<le> length (strip (doc_text (make_document ''http://a/long'' long_article)))
   \<and> extraction_failed (fst (sample_fetch ([''http://a/long''], []) ''http://a/short''))
   \<and> scrape_website sample_fetch ''http://a/short''
        ((init [] [])\<lparr>content := [(''http://a/long'', make_document ''http://a/long'' long_article)]\<rparr>)
        ([''http://a/long''], [])
       = (None,
          (init [] [])\<lparr>content := [(''http://a/long'', make_document ''http://a/long'' long_article)],
                        failed_urls := [''http://a/short'']\<rparr>,
          ([''http://a/long'', ''http://a/short''], []))"
proof -
  note r1 = reachable_sample
  show ?thesis
    using r1 extraction_min_length [OF r1, where url' = "''http://a/long''"
        and d = "make_document ''http://a/long'' long_article"
        and url = "''http://a/short''" and w = "([''http://a/long''], [])"]
    by (simp add: dict_get_def sample_fetch_def short_article_def strip_def py_isspace_def
          init_def)
qed

text \<open>
  C2. \<open>batch_scrape\<close> does not depend on the failed list it starts from: whatever that list
  holds, the call does what it does from the empty list, and the failed list after the call
  holds URLs of this call only.
\<close>

theorem batch_scrape_resets_failed_urls:
  "batch_scrape fetch urls (s\<lparr>failed_urls := prior\<rparr>) w =
     batch_scrape fetch urls (s\<lparr>failed_urls := []\<rparr>) w
   \<and> set (failed_urls (fst (snd (batch_scrape fetch urls (s\<lparr>failed_urls := prior\<rparr>) w))))
       \<subseteq> set urls"
proof -
  have "set (map fst (filter (\<lambda>(u, out). extraction_failed out) (outcomes fetch urls w)))
          \<subseteq> set (map fst (outcomes fetch urls w))"
    by auto
  then show ?thesis
    by (simp add: batch_scrape_def scrape_loop_failed outcomes_urls)
qed

theorem batch_scrape_resets_failed_urls_witness:
  "batch_scrape sample_fetch [''http://a/short'']
       ((init [] [])\<lparr>failed_urls := [''http://a/gone'']\<rparr>) ([], [])
     = ([], (init [] [])\<lparr>failed_urls := [''http://a/short'']\<rparr>, ([''http://a/short''], []))"
  using batch_scrape_resets_failed_urls [where fetch = sample_fetch
      and urls = "[''http://a/short'']" and s = "init [] []"
      and prior = "[''http://a/gone'']" and w = "([], [])"]
  by (simp add: batch_scrape_def scrape_website_def sample_fetch_def short_article_def
        strip_def py_isspace_def init_def)

text \<open>
  C3. \<open>batch_scrape\<close> returns the pairs of URL and document of the extractions that
  succeeded, in the order of the input; a URL whose extraction failed contributes no pair.
\<close>

theorem batch_scrape_returns_successes:
  "fst (batch_scrape fetch urls s w) =
     List.map_filter (\<lambda>(url, out). extracted url out) (outcomes fetch urls w)
   \<and> map fst (outcomes fetch urls w) = urls"
  by (simp add: batch_scrape_def scrape_loop_results outcomes_urls)

theorem batch_scrape_returns_successes_witness:
  "fst (batch_scrape sample_fetch [''http://a/short'', ''http://a/long'', ''http://a/gone'']
          (init [] []) ([], []))
     = [(''http://a/long'', make_document ''http://a/long'' long_article)]"
  using batch_scrape_returns_successes [where fetch = sample_fetch
      and urls = "[''http://a/short'', ''http://a/long'', ''http://a/gone'']"
      and s = "init [] []" and w = "([], [])"]
  by (simp add: sample_fetch_def short_article_def long_article_def strip_def py_isspace_def)

text \<open>
  C4. Without a HuggingFace key, \<open>summarize_text\<close> returns the first five sentences of
  the text, as the tokenizer finds them, joined by one space. The result does not depend on
  \<open>max_length\<close>, and the provider is not called.
\<close>

theorem summarize_without_credential:
  "hf_api_key s = [] \<Longrightarrow>
     summarize_text sent_tokenize post s body max_length w
       = (join '' '' (take 5 (sent_tokenize body)), w)"
  by (simp add: summarize_text_def simple_summarize_def py_prefix_def)

theorem summarize_without_credential_witness:
  "hf_api_key (init [] []) = []
   \<and> summarize_text (split_sentences []) post_unreachable (init [] [])
         ''One. Two. Three. Four. Five. Six. Seven.'' 7 ()
       = (''One. Two. Three. Four. Five.'', ())"
  using summarize_without_credential [of "init [] []" "split_sentences []" post_unreachable
      "''One. Two. Three. Four. Five. Six. Seven.''" 7 "()"]
  by (simp add: init_def py_isspace_def)

text \<open>
  C5. In a reachable state whose content map is empty, \<open>analyze_and_summarize\<close> returns
  the empty table, which has no entry under \<open>"overall"\<close>, and changes nothing.
\<close>

theorem analyze_empty_content:
  assumes "reachable sent_tokenize post fetch search netloc s" and "content s = []"
  shows "analyze_and_summarize sent_tokenize post s w = ([], s, w)
       \<and> dict_get (fst (analyze_and_summarize sent_tokenize post s w)) ''overall'' = None"
proof -
  from assms(1) have "state_inv s" by (rule reachable_inv)
  with assms(2) have "summaries s = []" by (simp add: state_inv_def)
  with assms(2) show ?thesis
    by (simp add: analyze_and_summarize_def dict_get_def)
qed

theorem analyze_empty_content_witness:
  "reachable one_sentence post_unreachable sample_fetch search_down no_netloc (init [] [])
   \<and> content (init [] []) = []
   \<and> analyze_and_summarize one_sentence post_unreachable (init [] [])
         (([], []) :: string list \<times> serp_params list)
       = ([], init [] [], ([], []))"
proof -
  have r0: "reachable one_sentence post_unreachable sample_fetch search_down no_netloc (init [] [])"
    by (rule r_init)
  have c0: "content (init [] []) = []" by (simp add: init_def)
  show ?thesis
    using r0 c0 analyze_empty_content [OF r0 c0, of "([], [])"] by simp
qed

text \<open>
  C6, as stated, fails: with a key set and a provider that cannot be reached, a text of
  5001 characters in one sentence is summarized to its first 5000 characters, while
  without a key the summary is the whole text.
\<close>

theorem summarize_fallback_counterexample:
  "summarize_text one_sentence post_unreachable (init [] ''key'') (replicate 5001 CHR ''a'') 500 ()
     = (replicate 5000 CHR ''a'', ())
   \<and> summarize_text one_sentence post_unreachable (init [] []) (replicate 5001 CHR ''a'') 500 ()
     = (replicate 5001 CHR ''a'', ())
   \<and> replicate 5000 CHR ''a'' \<noteq> replicate 5001 CHR ''a''"
  by (simp add: summarize_text_def simple_summarize_def py_prefix_def one_sentence_def
        post_unreachable_def init_def)

text \<open>
  C6, amended. With a key set, when the provider call raises or answers with a status
  other than 200, \<open>summarize_text\<close> returns what it returns without a key for the first
  5000 characters of the text; for a text of at most 5000 characters that is what it
  returns without a key for the text itself.
\<close>

theorem summarize_fallback_on_truncated_text:
  assumes "hf_api_key s \<noteq> []"
    and "provider_failed (fst (post w (hf_api_key s)
           \<lparr>payload_inputs = take 5000 body, payload_max_length = max_length,
            payload_min_length = 100\<rparr>))"
  shows "fst (summarize_text sent_tokenize post s body max_length w)
           = fst (summarize_text sent_tokenize post (s\<lparr>hf_api_key := []\<rparr>) (take 5000 body)
                    max_length w)
       \<and> (length body \<le> 5000 \<longrightarrow>
            fst (summarize_text sent_tokenize post s body max_length w)
              = fst (summarize_text sent_tokenize post (s\<lparr>hf_api_key := []\<rparr>) body max_length w))"
proof -
  have trunc: "(if length body > 5000 then take 5000 body else body) = take 5000 body"
    by simp
  obtain out w' where p: "post w (hf_api_key s)
           \<lparr>payload_inputs = take 5000 body, payload_max_length = max_length,
            payload_min_length = 100\<rparr> = (out, w')"
    by (cases "post w (hf_api_key s)
           \<lparr>payload_inputs = take 5000 body, payload_max_length = max_length,
            payload_min_length = 100\<rparr>")
  with assms(2) have failed: "provider_failed out" by simp
  have "fst (summarize_text sent_tokenize post s body max_length w)
          = simple_summarize sent_tokenize (take 5000 body) 5"
  proof (cases out)
    case PostRaised
    with assms(1) p show ?thesis
      unfolding summarize_text_def trunc by simp
  next
    case (Response status_code summary_text)
    with failed have "status_code \<noteq> 200" by simp
    with assms(1) p Response show ?thesis
      unfolding summarize_text_def trunc by simp
  qed
  then show ?thesis by (simp add: summarize_text_def)
qed

theorem summarize_fallback_on_truncated_text_witness:
  "hf_api_key (init [] ''key'') \<noteq> []
   \<and> provider_failed (fst (post_unavailable () (hf_api_key (init [] ''key''))
        \<lparr>payload_inputs = take 5000 ''One. Two. Three. Four. Five. Six. Seven.'',
         payload_max_length = 500, payload_min_length = 100\<rparr>))
   \<and> length ''One. Two. Three. Four. Five. Six. Seven.'' \<le> 5000
   \<and> fst (summarize_text (split_sentences []) post_unavailable (init [] ''key'')
            ''One. Two. Three. Four. Five. Six. Seven.'' 500 ())
       = fst (summarize_text (split_sentences []) post_unavailable
                ((init [] ''key'')\<lparr>hf_api_key := []\<rparr>)
                ''One. Two. Three. Four. Five. Six. Seven.'' 500 ())"
proof -
  have k: "hf_api_key (init [] ''key'') \<noteq> []" by (simp add: init_def)
  have f: "provider_failed (fst (post_unavailable () (hf_api_key (init [] ''key''))
        \<lparr>payload_inputs = take 5000 ''One. Two. Three. Four. Five. Six. Seven.'',
         payload_max_length = 500, payload_min_length = 100\<rparr>))"
    by (simp add: post_unavailable_def)
  have l: "length ''One. Two. Three. Four. Five. Six. Seven.'' \<le> 5000" by simp
  from k f l
    summarize_fallback_on_truncated_text [where s = "init [] ''key''"
      and post = post_unavailable and w = "()" and max_length = 500
      and body = "''One. Two. Three. Four. Five. Six. Seven.''"
      and sent_tokenize = "split_sentences []"]
  show ?thesis by blast
qed

text \<open>
  C7. Without a SerpAPI key, \<open>search_web\<close> raises \<open>ValueError\<close> and leaves the state and
  the network as they were: no request is made. With a key it raises nothing: it returns
  a list of URLs, the empty list when the request raises or a result has no link.
\<close>

theorem search_web_raises_only_without_key:
  "(serpapi_key s = [] \<longrightarrow> search_web search query n s w = (Inl ValueError, s, w))
   \<and> (serpapi_key s \<noteq> [] \<longrightarrow>
        (\<exists>urls s' w'. search_web search query n s w = (Inr urls, s', w'))
        \<and> (search_errored n (fst (search w \<lparr>param_q = query, param_api_key = serpapi_key s,
                                              param_num = n\<rparr>))
            \<longrightarrow> fst (search_web search query n s w) = Inr []))"
proof (cases "serpapi_key s = []")
  case True
  then show ?thesis by (simp add: search_web_def)
next
  case False
  then show ?thesis
    by (auto simp add: search_web_result search_errored_found split: option.splits)
qed

theorem search_web_raises_only_without_key_witness:
  "serpapi_key (init [] []) = []
   \<and> search_web search_down ''fox'' 5 (init [] []) ([], []) = (Inl ValueError, init [] [], ([], []))
   \<and> serpapi_key (init ''k'' []) \<noteq> []
   \<and> search_errored 5 (fst (search_down ([], [])
         \<lparr>param_q = ''fox'', param_api_key = serpapi_key (init ''k'' []), param_num = 5\<rparr>))
   \<and> fst (search_web search_down ''fox'' 5 (init ''k'' []) ([], [])) = Inr []"
proof -
  have a: "serpapi_key (init [] []) = []" by (simp add: init_def)
  have b: "serpapi_key (init ''k'' []) \<noteq> []" by (simp add: init_def)
  have c: "search_errored 5 (fst (search_down ([], [])
         \<lparr>param_q = ''fox'', param_api_key = serpapi_key (init ''k'' []), param_num = 5\<rparr>))"
    by (simp add: search_down_def)
  from a b c
    search_web_raises_only_without_key [where s = "init [] []" and search = search_down
      and query = "''fox''" and n = 5 and w = "([], [])"]
    search_web_raises_only_without_key [where s = "init ''k'' []" and search = search_down
      and query = "''fox''" and n = 5 and w = "([], [])"]
  show ?thesis by blast
qed

text \<open>
  C8, as stated, fails: a search that finds two results, followed by a search that cannot
  reach the provider, leaves the results of the first search in \<open>search_results\<close>, while
  the second search returns the empty list.
\<close>

theorem search_web_cache_counterexample:
  "search_web search_once ''fox'' 5 (init ''k'' []) ([], [])
     = (Inr [''http://a/long'', ''http://a/short''],
        (init ''k'' [])\<lparr>search_results := [''http://a/long'', ''http://a/short'']\<rparr>,
        ([], [\<lparr>param_q = ''fox'', param_api_key = ''k'', param_num = 5\<rparr>]))
   \<and> search_web search_once ''dog'' 5
        ((init ''k'' [])\<lparr>search_results := [''http://a/long'', ''http://a/short'']\<rparr>)
        ([], [\<lparr>param_q = ''fox'', param_api_key = ''k'', param_num = 5\<rparr>])
     = (Inr [],
        (init ''k'' [])\<lparr>search_results := [''http://a/long'', ''http://a/short'']\<rparr>,
        ([], [\<lparr>param_q = ''fox'', param_api_key = ''k'', param_num = 5\<rparr>,
              \<lparr>param_q = ''dog'', param_api_key = ''k'', param_num = 5\<rparr>]))"
  by (simp add: search_web_def search_once_def init_def py_prefix_def)

text \<open>
  C8, amended. \<open>search_web\<close> overwrites \<open>search_results\<close> when the search finds URLs, that
  is when the answer lists organic results and each result that the slice keeps has a
  link; \<open>search_results\<close> is then the list returned. In every other case (no key, no
  organic results, an exception) the state is left as it was. No other field ever changes.
\<close>

theorem search_web_cache:
  "search_web search query n s w = (r, s', w') \<Longrightarrow>
     (case r of
        Inl e \<Rightarrow> s' = s
      | Inr urls \<Rightarrow>
          (case search_found n (fst (search w \<lparr>param_q = query, param_api_key = serpapi_key s,
                                               param_num = n\<rparr>)) of
             None \<Rightarrow> s' = s \<and> urls = []
           | Some found \<Rightarrow> urls = found \<and> s' = s\<lparr>search_results := found\<rparr>))"
proof (cases "serpapi_key s = []")
  case True
  assume "search_web search query n s w = (r, s', w')"
  with True show ?thesis by (auto simp add: search_web_def)
next
  case False
  assume "search_web search query n s w = (r, s', w')"
  with False show ?thesis
    by (auto simp add: search_web_result split: option.splits)
qed

theorem search_web_cache_witness:
  "search_web search_once ''fox'' 1 (init ''k'' []) ([], [])
     = (Inr [''http://a/long''], (init ''k'' [])\<lparr>search_results := [''http://a/long'']\<rparr>,
        ([], [\<lparr>param_q = ''fox'', param_api_key = ''k'', param_num = 1\<rparr>]))
   \<and> search_found 1 (fst (search_once ([], [])
        \<lparr>param_q = ''fox'', param_api_key = serpapi_key (init ''k'' []), param_num = 1\<rparr>))
       = Some [''http://a/long'']"
proof -
  have run: "search_web search_once ''fox'' 1 (init ''k'' []) ([], [])
     = (Inr [''http://a/long''], (init ''k'' [])\<lparr>search_results := [''http://a/long'']\<rparr>,
        ([], [\<lparr>param_q = ''fox'', param_api_key = ''k'', param_num = 1\<rparr>]))"
    by (simp add: search_web_def search_once_def init_def py_prefix_def)
  from search_web_cache [OF run] run show ?thesis
    by (simp add: search_once_def py_prefix_def init_def)
qed

text \<open>
  C9. Take a serializer that gives back every Python value built from \<open>None\<close>, strings,
  lists and dictionaries with distinct string keys, as \<open>json.dump\<close> followed by \<open>json.load\<close>
  does. Then in every reachable state, when the file can be opened, \<open>save_results\<close> returns
  the file name, and loading the file it wrote gives a dictionary whose entries
  \<open>"content"\<close>, \<open>"summaries"\<close> and \<open>"failed_urls"\<close> are the content map, the summary table
  and the failed list of the state that was saved.
\<close>

theorem save_then_reload:
  assumes "reachable sent_tokenize post fetch search netloc s"
    and "\<forall>v. dict_keys_distinct v \<longrightarrow> json_load (json_dump v) = Some v"
    and "can_open filename"
  shows "fst (save_results json_dump can_open filename s fs) = Inr filename
       \<and> (\<exists>loaded.
            reload json_load filename (snd (save_results json_dump can_open filename s fs))
              = Some loaded
            \<and> py_field loaded ''content'' = Some (py_content (content s))
            \<and> py_field loaded ''summaries'' = Some (py_summaries (summaries s))
            \<and> py_field loaded ''failed_urls'' = Some (py_strs (failed_urls s)))"
proof -
  from assms(1) have "state_inv s" by (rule reachable_inv)
  then have "dict_keys_distinct (results_dict s)" by (rule results_dict_ok)
  with assms(2) have "json_load (json_dump (results_dict s)) = Some (results_dict s)"
    by simp
  with assms(3)
  have "reload json_load filename (snd (save_results json_dump can_open filename s fs))
          = Some (results_dict s)"
    by (simp add: reload_def save_results_def)
  moreover have "py_field (results_dict s) ''content'' = Some (py_content (content s))"
    and "py_field (results_dict s) ''summaries'' = Some (py_summaries (summaries s))"
    and "py_field (results_dict s) ''failed_urls'' = Some (py_strs (failed_urls s))"
    by (simp_all add: results_dict_def)
  moreover from assms(3)
  have "fst (save_results json_dump can_open filename s fs) = Inr filename"
    by (simp add: save_results_def)
  ultimately show ?thesis by blast
qed

theorem save_then_reload_witness:
  "reachable one_sentence post_unreachable sample_fetch search_down no_netloc
     ((init [] [])\<lparr>content := [(''http://a/long'', make_document ''http://a/long'' long_article)]\<rparr>)
   \<and> (\<forall>v. load_value (dump_value v) = Some v)
   \<and> any_file ''scraper_results.json''
   \<and> (\<exists>loaded.
        reload load_value ''scraper_results.json''
          (snd (save_results dump_value any_file ''scraper_results.json''
             ((init [] [])\<lparr>content := [(''http://a/long'', make_document ''http://a/long'' long_article)]\<rparr>)
             (\<lambda>name. None)))
          = Some loaded
        \<and> py_field loaded ''content''
            = Some (py_content [(''http://a/long'', make_document ''http://a/long'' long_article)]))"
proof -
  have rt: "\<forall>v. dict_keys_distinct v \<longrightarrow> load_value (dump_value v) = Some v"
    by (simp add: load_value_def dump_value_def)
  have rt': "\<forall>v. load_value (dump_value v) = Some v"
    by (simp add: load_value_def dump_value_def)
  have op: "any_file ''scraper_results.json''" by (simp add: any_file_def)
  from save_then_reload [where json_load = load_value and json_dump = dump_value
      and can_open = any_file and filename = "''scraper_results.json''"
      and fs = "\<lambda>name. None", OF reachable_sample rt op]
    reachable_sample rt' op
  show ?thesis by auto
qed

text \<open>
  C10. After \<open>batch_scrape\<close> the failed list holds the URLs of the failed extractions, one
  entry per failed extraction and in the order of the input: a URL is in the list as many
  times as its extraction failed in this call.
\<close>

theorem batch_scrape_failed_per_occurrence:
  "failed_urls (fst (snd (batch_scrape fetch urls s w))) =
     map fst (filter (\<lambda>(u, out). extraction_failed out) (outcomes fetch urls w))
   \<and> count_list (failed_urls (fst (snd (batch_scrape fetch urls s w)))) url =
       length (filter (\<lambda>(u, out). u = url \<and> extraction_failed out) (outcomes fetch urls w))"
  by (simp add: batch_scrape_def scrape_loop_failed count_failed)

theorem batch_scrape_failed_per_occurrence_witness:
  "failed_urls (fst (snd (batch_scrape sample_fetch
       [''http://a/short'', ''http://a/long'', ''http://a/short''] (init [] []) ([], []))))
     = [''http://a/short'', ''http://a/short'']
   \<and> count_list (failed_urls (fst (snd (batch_scrape sample_fetch
       [''http://a/short'', ''http://a/long'', ''http://a/short''] (init [] []) ([], [])))))
       ''http://a/short'' = 2"
  using batch_scrape_failed_per_occurrence [where fetch = sample_fetch
      and urls = "[''http://a/short'', ''http://a/long'', ''http://a/short'']"
      and s = "init [] []" and w = "([], [])" and url = "''http://a/short''"]
  by (simp add: sample_fetch_def short_article_def long_article_def strip_def py_isspace_def)

end
